theory Spec2Isabelle
  imports Main
begin

section \<open>Python values used by \<^verbatim>\<open>avatar_service.py\<close>\<close>

text \<open>
  A Python \<^verbatim>\<open>str\<close> is a sequence of Unicode code points, so it is modelled as a list of
  naturals; \<open>py\<close> turns an ASCII literal of the source into that form.
\<close>

type_synonym pystr = "nat list"

definition py :: "string \<Rightarrow> pystr" where
  "py s = map of_char s"

text \<open>
  A \<^verbatim>\<open>datetime\<close> has microsecond resolution: it is the number of microseconds since the
  epoch. \<^verbatim>\<open>timedelta(hours=1)\<close> is 3600 seconds.
\<close>

type_synonym datetime = int

definition timedelta_hours :: "int \<Rightarrow> int" where
  "timedelta_hours h = h * 3600 * 1000000"

text \<open>
  What \<^verbatim>\<open>json.loads\<close> returns: \<^verbatim>\<open>None\<close>, a bool, an int, a float, a str, a list or a
  dict. A float is kept as mantissa and binary exponent, or as one of the non-finite values
  Python's parser accepts. A JSON object keeps its members in the order of the text.
\<close>

datatype pyfloat = Finite int int | Infinity bool | NaN

datatype json =
    JNull
  | JBool bool
  | JInt int
  | JFloat pyfloat
  | JStr pystr
  | JArr "json list"
  | JObj "(pystr \<times> json) list"

text \<open>Python's truth value of an object (\<^verbatim>\<open>not x\<close>, \<^verbatim>\<open>x and y\<close>).\<close>

fun truthy :: "json \<Rightarrow> bool" where
  "truthy JNull = False"
| "truthy (JBool b) = b"
| "truthy (JInt n) = (n \<noteq> 0)"
| "truthy (JFloat (Finite m e)) = (m \<noteq> 0)"
| "truthy (JFloat (Infinity s)) = True"
| "truthy (JFloat NaN) = True"
| "truthy (JStr s) = (s \<noteq> [])"
| "truthy (JArr xs) = (xs \<noteq> [])"
| "truthy (JObj kvs) = (kvs \<noteq> [])"

fun type_name :: "json \<Rightarrow> pystr" where
  "type_name JNull = py ''NoneType''"
| "type_name (JBool b) = py ''bool''"
| "type_name (JInt n) = py ''int''"
| "type_name (JFloat f) = py ''float''"
| "type_name (JStr s) = py ''str''"
| "type_name (JArr xs) = py ''list''"
| "type_name (JObj kvs) = py ''dict''"

text \<open>
  The exceptions the handlers can meet. Every one of them is an \<^verbatim>\<open>Exception\<close>, so the
  handlers' \<^verbatim>\<open>except Exception\<close> catches it; \<open>str_exn\<close> is \<^verbatim>\<open>str(e)\<close>
  (code point 39 is the apostrophe).
\<close>

datatype exn =
    JSONDecodeError pystr
  | AttributeError pystr pystr
  | TypeError pystr
  | KeyError pystr
  | SdkError pystr

fun str_exn :: "exn \<Rightarrow> pystr" where
  "str_exn (JSONDecodeError msg) = msg"
| "str_exn (AttributeError ty attr) =
     [39] @ ty @ [39] @ py '' object has no attribute '' @ [39] @ attr @ [39]"
| "str_exn (TypeError ty) = py ''unhashable type: '' @ [39] @ ty @ [39]"
| "str_exn (KeyError k) = [39] @ k @ [39]"
| "str_exn (SdkError msg) = msg"

text \<open>
  \<^verbatim>\<open>data.get\<close>: only a dict has the method. On a dict parsed from JSON text a repeated
  member name keeps its last value.
\<close>

definition getattr_get :: "json \<Rightarrow> exn + (pystr \<times> json) list" where
  "getattr_get data =
     (case data of
        JObj kvs \<Rightarrow> Inr kvs
      | _ \<Rightarrow> Inl (AttributeError (type_name data) (py ''get'')))"

definition dict_get :: "(pystr \<times> json) list \<Rightarrow> pystr \<Rightarrow> json \<Rightarrow> json" where
  "dict_get kvs k d = (case map_of (rev kvs) k of None \<Rightarrow> d | Some v \<Rightarrow> v)"

text \<open>
  \<^verbatim>\<open>str.strip()\<close> removes leading and trailing whitespace, where whitespace is what
  \<^verbatim>\<open>str.isspace\<close> accepts. Any other type has no \<^verbatim>\<open>strip\<close>.
\<close>

definition py_isspace :: "nat \<Rightarrow> bool" where
  "py_isspace c =
     ((9 \<le> c \<and> c \<le> 13) \<or> (28 \<le> c \<and> c \<le> 32) \<or> c = 133 \<or> c = 160 \<or> c = 5760
      \<or> (8192 \<le> c \<and> c \<le> 8202) \<or> c = 8232 \<or> c = 8233 \<or> c = 8239 \<or> c = 8287
      \<or> c = 12288)"

definition strip :: "pystr \<Rightarrow> pystr" where
  "strip s = rev (dropWhile py_isspace (rev (dropWhile py_isspace s)))"

definition getattr_strip :: "json \<Rightarrow> exn + pystr" where
  "getattr_strip text =
     (case text of
        JStr s \<Rightarrow> Inr (strip s)
      | _ \<Rightarrow> Inl (AttributeError (type_name text) (py ''strip'')))"

section \<open>Responses\<close>

record response =
  status :: nat
  body :: json

definition json_response :: "json \<Rightarrow> response" where
  "json_response data = \<lparr>status = 200, body = data\<rparr>"

definition json_response_status :: "json \<Rightarrow> nat \<Rightarrow> response" where
  "json_response_status data st = \<lparr>status = st, body = data\<rparr>"

definition error_body :: "pystr \<Rightarrow> json" where
  "error_body msg = JObj [(py ''error'', JStr msg)]"

section \<open>The service object\<close>

text \<open>
  A stored connection is a Python dict with the keys \<^verbatim>\<open>character\<close>, \<^verbatim>\<open>style\<close>,
  \<^verbatim>\<open>background\<close>, \<^verbatim>\<open>created_at\<close> and \<^verbatim>\<open>speaking\<close>; its values are what the request
  carried, a datetime and a bool.
\<close>

datatype pyval = Json json | Datetime datetime

type_synonym session = "pystr \<rightharpoonup> pyval"

type_synonym registry = "pystr \<rightharpoonup> session"

record 'c avatar_service =
  speech_key :: "pystr option"
  speech_region :: pystr
  speech_private_endpoint :: "pystr option"
  credentials :: "'c option"
  active_connections :: registry

text \<open>
  \<^verbatim>\<open>__init__\<close> reads the process environment (a map from names to values). The attribute
  \<^verbatim>\<open>credentials\<close> is only set when no speech key is configured.
\<close>

definition init :: "(pystr \<rightharpoonup> pystr) \<Rightarrow> 'c \<Rightarrow> 'c avatar_service" where
  "init environ creds =
     \<lparr>speech_key = environ (py ''SPEECH_KEY''),
      speech_region =
        (case environ (py ''SPEECH_REGION'') of None \<Rightarrow> py ''westus2'' | Some r \<Rightarrow> r),
      speech_private_endpoint = environ (py ''SPEECH_PRIVATE_ENDPOINT''),
      credentials =
        (case environ (py ''SPEECH_KEY'') of
           None \<Rightarrow> Some creds
         | Some k \<Rightarrow> if k = [] then Some creds else None),
      active_connections = Map.empty\<rparr>"

section \<open>Token issuance\<close>

subsection \<open>\<^verbatim>\<open>get_ice_token\<close>\<close>

text \<open>
  The dict literal of \<^verbatim>\<open>get_ice_token\<close> evaluates its values in order: the subject, then
  \<^verbatim>\<open>datetime.utcnow() + timedelta(hours=1)\<close> for \<^verbatim>\<open>exp\<close>, then a second
  \<^verbatim>\<open>datetime.utcnow()\<close> for \<^verbatim>\<open>iat\<close>. The two clock readings are separate inputs.
\<close>

record token_data =
  iss :: pystr
  sub :: pystr
  exp :: datetime
  iat :: datetime

definition ice_token_data :: "pystr \<Rightarrow> datetime \<Rightarrow> datetime \<Rightarrow> token_data" where
  "ice_token_data uuid4 utcnow1 utcnow2 =
     \<lparr>iss = py ''avatar-service'',
      sub = uuid4,
      exp = utcnow1 + timedelta_hours 1,
      iat = utcnow2\<rparr>"

text \<open>
  The JWT library writes a datetime claim as whole seconds since the epoch
  (\<^verbatim>\<open>timegm(dt.utctimetuple())\<close>), dropping the microseconds.
\<close>

definition numeric_date :: "datetime \<Rightarrow> int" where
  "numeric_date t = t div 1000000"

definition ice_servers :: json where
  "ice_servers =
     JArr [JObj [(py ''urls'', JArr [JStr (py ''stun:stun.l.google.com:19302'')]),
                 (py ''username'', JStr []),
                 (py ''credential'', JStr [])]]"

text \<open>
  \<^verbatim>\<open>jwt.encode\<close> is the library's: it is a parameter, given the payload, the secret and
  the algorithm.
\<close>

definition get_ice_token ::
  "(token_data \<Rightarrow> pystr \<Rightarrow> pystr \<Rightarrow> exn + pystr) \<Rightarrow> (pystr \<rightharpoonup> pystr) \<Rightarrow>
     pystr \<Rightarrow> datetime \<Rightarrow> datetime \<Rightarrow> exn + json" where
  "get_ice_token jwt_encode environ uuid4 utcnow1 utcnow2 =
     (let token_data = ice_token_data uuid4 utcnow1 utcnow2;
          secret = (case environ (py ''ICE_TOKEN_SECRET'') of
                      None \<Rightarrow> py ''avatar-service-secret''
                    | Some s \<Rightarrow> s)
      in case jwt_encode token_data secret (py ''HS256'') of
           Inl e \<Rightarrow> Inl e
         | Inr token \<Rightarrow>
             Inr (JObj [(py ''token'', JStr token), (py ''ice_servers'', ice_servers)]))"

subsection \<open>\<^verbatim>\<open>get_speech_token\<close>\<close>

text \<open>
  The speech SDK is the external authority: building a \<^verbatim>\<open>SpeechConfig\<close> (with or
  without a subscription key) and reading its authorization-token property are parameters,
  and either may raise. \<^verbatim>\<open>get_speech_token\<close> logs and re-raises.
\<close>

record 'cfg speechsdk =
  SpeechConfig :: "pystr option \<Rightarrow> pystr \<Rightarrow> exn + 'cfg"
  get_property :: "'cfg \<Rightarrow> exn + pystr"

definition get_speech_token :: "'cfg speechsdk \<Rightarrow> 'c avatar_service \<Rightarrow> exn + json" where
  "get_speech_token sdk self =
     (case (case speech_key self of
              None \<Rightarrow> SpeechConfig sdk None (speech_region self)
            | Some k \<Rightarrow>
                if k \<noteq> [] then SpeechConfig sdk (Some k) (speech_region self)
                else SpeechConfig sdk None (speech_region self)) of
        Inl e \<Rightarrow> Inl e
      | Inr speech_config \<Rightarrow>
          (case get_property sdk speech_config of
             Inl e \<Rightarrow> Inl e
           | Inr auth_token \<Rightarrow>
               Inr (JObj [(py ''token'', JStr auth_token),
                          (py ''region'', JStr (speech_region self)),
                          (py ''expires_in'', JInt 3600)])))"

definition handle_speech_token :: "'cfg speechsdk \<Rightarrow> 'c avatar_service \<Rightarrow> response" where
  "handle_speech_token sdk self =
     (case get_speech_token sdk self of
        Inr token_info \<Rightarrow> json_response token_info
      | Inl e \<Rightarrow> json_response_status (error_body (str_exn e)) 500)"

definition handle_ice_token ::
  "(token_data \<Rightarrow> pystr \<Rightarrow> pystr \<Rightarrow> exn + pystr) \<Rightarrow> (pystr \<rightharpoonup> pystr) \<Rightarrow>
     pystr \<Rightarrow> datetime \<Rightarrow> datetime \<Rightarrow> response" where
  "handle_ice_token jwt_encode environ uuid4 utcnow1 utcnow2 =
     (case get_ice_token jwt_encode environ uuid4 utcnow1 utcnow2 of
        Inr token_info \<Rightarrow> json_response token_info
      | Inl e \<Rightarrow> json_response_status (error_body (str_exn e)) 500)"

section \<open>The connection handlers\<close>

text \<open>
  A request is what \<^verbatim>\<open>await request.json()\<close> gives: the parsed body, or the exception of
  a body that does not parse. A handler takes the service object and returns it with the
  response; an exception anywhere in the \<^verbatim>\<open>try\<close> block becomes the 500 response, and no
  handler raises after it has changed the registry.
\<close>

type_synonym request = "exn + json"

definition error_500 :: "exn \<Rightarrow> response" where
  "error_500 e = json_response_status (error_body (str_exn e)) 500"

text \<open>
  \<^verbatim>\<open>connection_id in self.active_connections\<close>: the keys of the registry are strings, so
  another hashable value is never among them, and a list or a dict cannot be hashed.
\<close>

definition contains :: "registry \<Rightarrow> json \<Rightarrow> exn + bool" where
  "contains conns x =
     (case x of
        JStr k \<Rightarrow> Inr (conns k \<noteq> None)
      | JArr xs \<Rightarrow> Inl (TypeError (py ''list''))
      | JObj kvs \<Rightarrow> Inl (TypeError (py ''dict''))
      | _ \<Rightarrow> Inr False)"

subsection \<open>\<^verbatim>\<open>handle_avatar_connect\<close>\<close>

text \<open>
  The identifier \<^verbatim>\<open>str(uuid.uuid4())\<close> and the clock reading are inputs of the handler.
\<close>

definition new_connection :: "json \<Rightarrow> json \<Rightarrow> json \<Rightarrow> datetime \<Rightarrow> session" where
  "new_connection character style background utcnow =
     [py ''character'' \<mapsto> Json character,
      py ''style'' \<mapsto> Json style,
      py ''background'' \<mapsto> Json background,
      py ''created_at'' \<mapsto> Datetime utcnow,
      py ''speaking'' \<mapsto> Json (JBool False)]"

definition handle_avatar_connect ::
  "'c avatar_service \<Rightarrow> request \<Rightarrow> pystr \<Rightarrow> datetime \<Rightarrow> 'c avatar_service \<times> response" where
  "handle_avatar_connect self request uuid4 utcnow =
     (case request of
        Inl e \<Rightarrow> (self, error_500 e)
      | Inr data \<Rightarrow>
          (case getattr_get data of
             Inl e \<Rightarrow> (self, error_500 e)
           | Inr kvs \<Rightarrow>
               (let character = dict_get kvs (py ''character'') (JStr (py ''lisa''));
                    style = dict_get kvs (py ''style'') (JStr (py ''casual-sitting''));
                    background = dict_get kvs (py ''background'') (JStr (py ''#FFFFFF''));
                    connection_id = uuid4
                in (self\<lparr>active_connections :=
                            (active_connections self)
                              (connection_id \<mapsto>
                                 new_connection character style background utcnow)\<rparr>,
                    json_response
                      (JObj [(py ''connection_id'', JStr connection_id),
                             (py ''character'', character),
                             (py ''style'', style),
                             (py ''background'', background),
                             (py ''status'', JStr (py ''connected''))])))))"

subsection \<open>\<^verbatim>\<open>handle_avatar_speak\<close>\<close>

text \<open>
  \<^verbatim>\<open>self.active_connections[connection_id]['speaking'] = True\<close> looks the record up and
  stores into it.
\<close>

definition mark_speaking :: "registry \<Rightarrow> json \<Rightarrow> exn + registry" where
  "mark_speaking conns connection_id =
     (case connection_id of
        JStr k \<Rightarrow>
          (case conns k of
             None \<Rightarrow> Inl (KeyError k)
           | Some record \<Rightarrow> Inr (conns(k \<mapsto> record(py ''speaking'' \<mapsto> Json (JBool True)))))
      | JArr xs \<Rightarrow> Inl (TypeError (py ''list''))
      | JObj kvs \<Rightarrow> Inl (TypeError (py ''dict''))
      | _ \<Rightarrow> Inl (KeyError (type_name connection_id)))"

definition handle_avatar_speak ::
  "'c avatar_service \<Rightarrow> request \<Rightarrow> 'c avatar_service \<times> response" where
  "handle_avatar_speak self request =
     (case request of
        Inl e \<Rightarrow> (self, error_500 e)
      | Inr data \<Rightarrow>
          (case getattr_get data of
             Inl e \<Rightarrow> (self, error_500 e)
           | Inr kvs \<Rightarrow>
               (let connection_id = dict_get kvs (py ''connection_id'') JNull;
                    text = dict_get kvs (py ''text'') (JStr []);
                    voice = dict_get kvs (py ''voice'') (JStr (py ''en-US-AriaNeural''))
                in if \<not> truthy connection_id
                   then (self, json_response_status
                                 (error_body (py ''Invalid connection'')) 400)
                   else
                     (case contains (active_connections self) connection_id of
                        Inl e \<Rightarrow> (self, error_500 e)
                      | Inr present \<Rightarrow>
                          if \<not> present
                          then (self, json_response_status
                                        (error_body (py ''Invalid connection'')) 400)
                          else
                            (case getattr_strip text of
                               Inl e \<Rightarrow> (self, error_500 e)
                             | Inr stripped \<Rightarrow>
                                 if stripped = []
                                 then (self, json_response_status
                                               (error_body (py ''No text provided'')) 400)
                                 else
                                   (case mark_speaking (active_connections self)
                                           connection_id of
                                      Inl e \<Rightarrow> (self, error_500 e)
                                    | Inr conns \<Rightarrow>
                                        (self\<lparr>active_connections := conns\<rparr>,
                                         json_response
                                           (JObj [(py ''connection_id'', connection_id),
                                                  (py ''text'', text),
                                                  (py ''voice'', voice),
                                                  (py ''status'',
                                                   JStr (py ''speaking''))]))))))))"

subsection \<open>\<^verbatim>\<open>handle_avatar_disconnect\<close>\<close>

text \<open>
  \<^verbatim>\<open>del self.active_connections[connection_id]\<close> runs only after the membership test
  said that the key is there, so the key is a string.
\<close>

definition del_connection :: "registry \<Rightarrow> json \<Rightarrow> exn + registry" where
  "del_connection conns connection_id =
     (case connection_id of
        JStr k \<Rightarrow>
          (case conns k of
             None \<Rightarrow> Inl (KeyError k)
           | Some record \<Rightarrow> Inr (conns(k := None)))
      | JArr xs \<Rightarrow> Inl (TypeError (py ''list''))
      | JObj kvs \<Rightarrow> Inl (TypeError (py ''dict''))
      | _ \<Rightarrow> Inl (KeyError (type_name connection_id)))"

definition handle_avatar_disconnect ::
  "'c avatar_service \<Rightarrow> request \<Rightarrow> 'c avatar_service \<times> response" where
  "handle_avatar_disconnect self request =
     (case request of
        Inl e \<Rightarrow> (self, error_500 e)
      | Inr data \<Rightarrow>
          (case getattr_get data of
             Inl e \<Rightarrow> (self, error_500 e)
           | Inr kvs \<Rightarrow>
               (let connection_id = dict_get kvs (py ''connection_id'') JNull
                in if \<not> truthy connection_id
                   then (self, json_response_status
                                 (error_body (py ''Connection not found'')) 404)
                   else
                     (case contains (active_connections self) connection_id of
                        Inl e \<Rightarrow> (self, error_500 e)
                      | Inr present \<Rightarrow>
                          if present
                          then
                            (case del_connection (active_connections self) connection_id of
                               Inl e \<Rightarrow> (self, error_500 e)
                             | Inr conns \<Rightarrow>
                                 (self\<lparr>active_connections := conns\<rparr>,
                                  json_response
                                    (JObj [(py ''status'', JStr (py ''disconnected''))])))
                          else (self, json_response_status
                                        (error_body (py ''Connection not found'')) 404)))))"

section \<open>Vocabulary of the properties\<close>

text \<open>
  The value a parsed body holds under a member name, if it is a dict that has the name
  (as for \<open>dict_get\<close>, the last member of that name counts).
\<close>

definition json_member :: "json \<Rightarrow> pystr \<Rightarrow> json option" where
  "json_member data k = (case data of JObj kvs \<Rightarrow> map_of (rev kvs) k | _ \<Rightarrow> None)"

text \<open>Python can hash every parsed value but a list and a dict.\<close>

definition hashable :: "json \<Rightarrow> bool" where
  "hashable x = (case x of JArr xs \<Rightarrow> False | JObj kvs \<Rightarrow> False | _ \<Rightarrow> True)"

text \<open>A value is absent from the registry when it is not one of its keys.\<close>

definition absent :: "registry \<Rightarrow> json \<Rightarrow> bool" where
  "absent conns x = (case x of JStr k \<Rightarrow> conns k = None | _ \<Rightarrow> True)"

text \<open>
  A run of the service: the calls that reach it, each with what its handler reads from
  outside (the request, and for a connect the generated identifier and the clock). A
  handler touches the registry in one piece between two \<^verbatim>\<open>await\<close>s, so the calls are
  taken one after another.
\<close>

datatype call =
    Connect request pystr datetime
  | Speak request
  | Disconnect request

fun step :: "'c avatar_service \<Rightarrow> call \<Rightarrow> 'c avatar_service \<times> response" where
  "step self (Connect request uuid4 utcnow) = handle_avatar_connect self request uuid4 utcnow"
| "step self (Speak request) = handle_avatar_speak self request"
| "step self (Disconnect request) = handle_avatar_disconnect self request"

fun run :: "'c avatar_service \<Rightarrow> call list \<Rightarrow> 'c avatar_service" where
  "run self [] = self"
| "run self (c # cs) = run (fst (step self c)) cs"

text \<open>
  What a request asks about: the value under \<^verbatim>\<open>connection_id\<close> of its body, or
  \<^verbatim>\<open>None\<close>.
\<close>

definition requested_id :: "request \<Rightarrow> json" where
  "requested_id request =
     (case request of
        Inl e \<Rightarrow> JNull
      | Inr data \<Rightarrow>
          (case json_member data (py ''connection_id'') of None \<Rightarrow> JNull | Some v \<Rightarrow> v))"

text \<open>
  A call generates an identifier when it is a connect answered 200 with that identifier; it
  removes an identifier when it is a disconnect answered 200 that asked for it.
\<close>

definition generates :: "'c avatar_service \<Rightarrow> call \<Rightarrow> pystr \<Rightarrow> bool" where
  "generates self c k =
     (case c of
        Connect request uuid4 utcnow \<Rightarrow>
          status (snd (step self c)) = 200
          \<and> json_member (body (snd (step self c))) (py ''connection_id'') = Some (JStr k)
      | _ \<Rightarrow> False)"

definition removes :: "'c avatar_service \<Rightarrow> call \<Rightarrow> pystr \<Rightarrow> bool" where
  "removes self c k =
     (case c of
        Disconnect request \<Rightarrow>
          status (snd (step self c)) = 200 \<and> requested_id request = JStr k
      | _ \<Rightarrow> False)"

text \<open>The five keys of a stored connection.\<close>

definition session_fields :: "pystr set" where
  "session_fields =
     {py ''character'', py ''style'', py ''background'', py ''created_at'', py ''speaking''}"

text \<open>
  The same, by position in a run: the call at position \<open>i\<close> meets the service as the
  calls before it left it. An identifier is live after a run when some call generated it
  and no later call removed it.
\<close>

definition generated_at :: "'c avatar_service \<Rightarrow> call list \<Rightarrow> nat \<Rightarrow> pystr \<Rightarrow> bool" where
  "generated_at self cs i k = generates (run self (take i cs)) (cs ! i) k"

definition removed_at :: "'c avatar_service \<Rightarrow> call list \<Rightarrow> nat \<Rightarrow> pystr \<Rightarrow> bool" where
  "removed_at self cs i k = removes (run self (take i cs)) (cs ! i) k"

definition live :: "'c avatar_service \<Rightarrow> call list \<Rightarrow> pystr \<Rightarrow> bool" where
  "live self cs k =
     (\<exists>i<length cs. generated_at self cs i k
        \<and> (\<forall>j. i < j \<and> j < length cs \<longrightarrow> \<not> removed_at self cs j k))"

text \<open>A registry is well formed when every stored connection has exactly the five keys.\<close>

definition well_formed :: "registry \<Rightarrow> bool" where
  "well_formed conns = (\<forall>k conn. conns k = Some conn \<longrightarrow> dom conn = session_fields)"

section \<open>Properties\<close>

lemma ice_token_data_same_reading:
  "exp (ice_token_data u t t) = iat (ice_token_data u t t) + 3600 * 1000000"
  by (simp add: ice_token_data_def timedelta_hours_def)

text \<open>
  Claim C1: the expiry of an issued ICE token is its issued-at time plus exactly one hour,
  for every pair of clock readings. The source reads the clock twice, so the two claims
  are one hour apart only when both readings coincide. At readings one microsecond apart
  that straddle a second boundary the payload has \<open>exp = iat + 3600 s - 1 \<mu>s\<close>, and the
  encoded token's whole-second claims are 3599 seconds apart.
\<close>

theorem ice_token_exp_not_iat_plus_hour:
  "exp (ice_token_data (py ''u'') 1700000000999999 1700000001000000) = 1700003600999999
   \<and> iat (ice_token_data (py ''u'') 1700000000999999 1700000001000000) = 1700000001000000
   \<and> numeric_date (exp (ice_token_data (py ''u'') 1700000000999999 1700000001000000))
       = 1700003600
   \<and> numeric_date (iat (ice_token_data (py ''u'') 1700000000999999 1700000001000000))
       + 3600 = 1700003601"
  by (simp add: ice_token_data_def timedelta_hours_def numeric_date_def)

subsection \<open>Helper facts\<close>

lemma strip_Nil_iff: "strip s = [] \<longleftrightarrow> (\<forall>c\<in>set s. py_isspace c)"
proof
  assume "strip s = []"
  then have all: "\<forall>c\<in>set (dropWhile py_isspace s). py_isspace c"
    by (simp add: strip_def dropWhile_eq_Nil_conv)
  have "dropWhile py_isspace s = []"
  proof (rule ccontr)
    assume ne: "dropWhile py_isspace s \<noteq> []"
    then have "\<not> py_isspace (hd (dropWhile py_isspace s))"
      by (rule hd_dropWhile)
    moreover from ne have "hd (dropWhile py_isspace s) \<in> set (dropWhile py_isspace s)"
      by simp
    ultimately show False
      using all by blast
  qed
  then show "\<forall>c\<in>set s. py_isspace c"
    by (simp add: dropWhile_eq_Nil_conv)
next
  assume "\<forall>c\<in>set s. py_isspace c"
  then have "dropWhile py_isspace s = []"
    by (simp add: dropWhile_eq_Nil_conv)
  then show "strip s = []"
    by (simp only: strip_def rev.simps dropWhile.simps)
qed

lemma dict_get_member:
  "dict_get kvs k d = (case json_member (JObj kvs) k of None \<Rightarrow> d | Some v \<Rightarrow> v)"
  by (simp add: dict_get_def json_member_def)

lemma json_member_None_iff: "json_member (JObj kvs) k = None \<longleftrightarrow> k \<notin> fst ` set kvs"
  by (simp add: json_member_def map_of_eq_None_iff)

lemma contains_absent:
  "hashable x \<Longrightarrow> absent conns x \<Longrightarrow> contains conns x = Inr False"
  by (cases x) (simp_all add: hashable_def absent_def contains_def)

lemma contains_present:
  "conns k = Some r \<Longrightarrow> contains conns (JStr k) = Inr True"
  by (simp add: contains_def)

lemma dict_get_absent: "k \<notin> fst ` set kvs \<Longrightarrow> dict_get kvs k d = d"
proof -
  assume "k \<notin> fst ` set kvs"
  then have "map_of (rev kvs) k = None"
    by (simp add: map_of_eq_None_iff)
  then show ?thesis
    by (simp add: dict_get_def)
qed

subsection \<open>Connect\<close>

text \<open>
  Claim C2, as stated: every connect request whose JSON body parses succeeds with status
  200. A body that parses to something other than an object (here the empty array) has no
  \<^verbatim>\<open>get\<close>; the handler's \<^verbatim>\<open>except\<close> answers 500.
\<close>

theorem connect_array_body_is_500:
  "status (snd (handle_avatar_connect (init Map.empty ()) (Inr (JArr [])) (py ''id'') 0)) = 500"
  by (simp add: handle_avatar_connect_def getattr_get_def error_500_def json_response_status_def)

text \<open>
  Claim C2, amended: for every connect request whose body parses to a JSON object, the
  handler answers 200 with the generated connection identifier, status \<^verbatim>\<open>connected\<close> and the
  resolved configuration, stores exactly that configuration under the identifier, and each
  of character, style and background is the request's value when the object has the
  member, and \<^verbatim>\<open>lisa\<close>, \<^verbatim>\<open>casual-sitting\<close>, \<^verbatim>\<open>#FFFFFF\<close> when it has not.
\<close>

theorem connect_object_body_resolves_defaults:
  "\<exists>character style background.
     handle_avatar_connect self (Inr (JObj kvs)) uuid4 utcnow =
       (self\<lparr>active_connections :=
               (active_connections self)
                 (uuid4 \<mapsto> new_connection character style background utcnow)\<rparr>,
        \<lparr>status = 200,
         body = JObj [(py ''connection_id'', JStr uuid4),
                      (py ''character'', character),
                      (py ''style'', style),
                      (py ''background'', background),
                      (py ''status'', JStr (py ''connected''))]\<rparr>)
     \<and> character = (case json_member (JObj kvs) (py ''character'') of
                      None \<Rightarrow> JStr (py ''lisa'') | Some v \<Rightarrow> v)
     \<and> style = (case json_member (JObj kvs) (py ''style'') of
                  None \<Rightarrow> JStr (py ''casual-sitting'') | Some v \<Rightarrow> v)
     \<and> background = (case json_member (JObj kvs) (py ''background'') of
                       None \<Rightarrow> JStr (py ''#FFFFFF'') | Some v \<Rightarrow> v)"
  by (simp add: handle_avatar_connect_def getattr_get_def json_response_def dict_get_member Let_def)

theorem connect_object_body_resolves_defaults_witness:
  "handle_avatar_connect (init Map.empty ())
       (Inr (JObj [(py ''character'', JStr (py ''lisa''))])) (py ''id1'') 7 =
     ((init Map.empty ())
        \<lparr>active_connections :=
           [py ''id1'' \<mapsto>
              new_connection (JStr (py ''lisa'')) (JStr (py ''casual-sitting''))
                (JStr (py ''#FFFFFF'')) 7]\<rparr>,
      \<lparr>status = 200,
       body = JObj [(py ''connection_id'', JStr (py ''id1'')),
                    (py ''character'', JStr (py ''lisa'')),
                    (py ''style'', JStr (py ''casual-sitting'')),
                    (py ''background'', JStr (py ''#FFFFFF'')),
                    (py ''status'', JStr (py ''connected''))]\<rparr>)"
proof -
  let ?kvs = "[(py ''character'', JStr (py ''lisa''))]"
  have "json_member (JObj ?kvs) (py ''character'') = Some (JStr (py ''lisa''))"
    "json_member (JObj ?kvs) (py ''style'') = None"
    "json_member (JObj ?kvs) (py ''background'') = None"
    by (simp_all add: json_member_def py_def)
  with connect_object_body_resolves_defaults [of "init Map.empty ()" ?kvs "py ''id1''" 7]
  show ?thesis
    by (auto simp: init_def)
qed

subsection \<open>Speak on an unknown connection\<close>

text \<open>
  Claim C3, as stated: a speak request whose connection identifier is absent from the
  registry gets a 400. An identifier that is a non-empty JSON array is not a key of the
  registry, but the membership test cannot hash it and the handler answers 500.
\<close>

theorem speak_unhashable_connection_is_500:
  "status (snd (handle_avatar_speak (init Map.empty ())
      (Inr (JObj [(py ''connection_id'', JArr [JInt 1]), (py ''text'', JStr (py ''hi''))]))))
    = 500"
  by (simp add: handle_avatar_speak_def getattr_get_def dict_get_def py_def contains_def
        error_500_def json_response_status_def)

text \<open>
  Claim C3, amended: for every speak request whose body is a JSON object and whose
  connection identifier is missing, falsy, or a hashable value (a string, number or
  boolean) that is not a key of the registry, the handler answers 400
  \<^verbatim>\<open>Invalid connection\<close> and leaves the service unchanged, whatever the text member is
  (absent, empty, whitespace, non-empty, or not a string at all).
\<close>

theorem speak_unknown_connection:
  assumes "connection_id = dict_get kvs (py ''connection_id'') JNull"
    and "\<not> truthy connection_id
         \<or> (hashable connection_id \<and> absent (active_connections self) connection_id)"
  shows "handle_avatar_speak self (Inr (JObj kvs)) =
           (self, \<lparr>status = 400, body = error_body (py ''Invalid connection'')\<rparr>)"
proof (cases "truthy connection_id")
  case False
  with assms(1) show ?thesis
    by (simp add: handle_avatar_speak_def getattr_get_def json_response_status_def)
next
  case True
  with assms(2) have "contains (active_connections self) connection_id = Inr False"
    by (simp add: contains_absent)
  with True assms(1) show ?thesis
    by (simp add: handle_avatar_speak_def getattr_get_def json_response_status_def)
qed

theorem speak_unknown_connection_witness:
  "truthy (JStr (py ''gone'')) \<and> hashable (JStr (py ''gone''))
   \<and> absent (active_connections (init Map.empty ())) (JStr (py ''gone''))
   \<and> handle_avatar_speak (init Map.empty ())
         (Inr (JObj [(py ''connection_id'', JStr (py ''gone'')),
                     (py ''text'', JStr (py ''hi''))])) =
       (init Map.empty (), \<lparr>status = 400, body = error_body (py ''Invalid connection'')\<rparr>)"
  using speak_unknown_connection
          [of "JStr (py ''gone'')"
              "[(py ''connection_id'', JStr (py ''gone'')), (py ''text'', JStr (py ''hi''))]"
              "init Map.empty ()"]
  by (simp add: hashable_def absent_def init_def dict_get_def py_def)

subsection \<open>Speak with blank text\<close>

text \<open>
  Claim C4: for every speak request whose connection identifier is a key of the registry
  and whose text is empty (or absent) or only whitespace, the handler answers 400 and the
  service, with its registry, is unchanged; a speaking flag that was false stays false.
\<close>

theorem speak_blank_text:
  assumes "dict_get kvs (py ''connection_id'') JNull = JStr k"
    and "active_connections self k = Some record"
    and "dict_get kvs (py ''text'') (JStr []) = JStr t"
    and "\<forall>c\<in>set t. py_isspace c"
  shows "handle_avatar_speak self (Inr (JObj kvs)) =
           (self, \<lparr>status = 400,
                   body = error_body (if k = [] then py ''Invalid connection''
                                      else py ''No text provided'')\<rparr>)
         \<and> (record (py ''speaking'') = Some (Json (JBool False)) \<longrightarrow>
              (\<exists>r. active_connections (fst (handle_avatar_speak self (Inr (JObj kvs)))) k
                     = Some r
                   \<and> r (py ''speaking'') = Some (Json (JBool False))))"
proof -
  have s: "strip t = []"
    using assms(4) by (simp add: strip_Nil_iff)
  have c: "contains (active_connections self) (JStr k) = Inr True"
    using assms(2) by (rule contains_present)
  have "handle_avatar_speak self (Inr (JObj kvs)) =
           (self, \<lparr>status = 400,
                   body = error_body (if k = [] then py ''Invalid connection''
                                      else py ''No text provided'')\<rparr>)"
    using assms(1,3) s c
    by (simp add: handle_avatar_speak_def getattr_get_def getattr_strip_def
          json_response_status_def)
  with assms(2) show ?thesis
    by simp
qed

theorem speak_blank_text_witness:
  "py_isspace 32
   \<and> handle_avatar_speak
       (fst (handle_avatar_connect (init Map.empty ()) (Inr (JObj [])) (py ''id1'') 7))
       (Inr (JObj [(py ''connection_id'', JStr (py ''id1'')), (py ''text'', JStr [32, 32])]))
     = (fst (handle_avatar_connect (init Map.empty ()) (Inr (JObj [])) (py ''id1'') 7),
        \<lparr>status = 400, body = error_body (py ''No text provided'')\<rparr>)
   \<and> (\<exists>r. active_connections
            (fst (handle_avatar_speak
               (fst (handle_avatar_connect (init Map.empty ()) (Inr (JObj []))
                  (py ''id1'') 7))
               (Inr (JObj [(py ''connection_id'', JStr (py ''id1'')),
                           (py ''text'', JStr [32, 32])]))))
            (py ''id1'') = Some r
          \<and> r (py ''speaking'') = Some (Json (JBool False)))"
proof -
  let ?conn = "new_connection (JStr (py ''lisa'')) (JStr (py ''casual-sitting''))
                 (JStr (py ''#FFFFFF'')) 7"
  let ?self = "fst (handle_avatar_connect (init Map.empty ()) (Inr (JObj [])) (py ''id1'') 7)"
  let ?kvs = "[(py ''connection_id'', JStr (py ''id1'')), (py ''text'', JStr [32, 32])]"
  have sp: "py_isspace 32"
    by (simp add: py_isspace_def)
  then have blank: "\<forall>c\<in>set [32, 32]. py_isspace c"
    by simp
  have stored: "active_connections ?self (py ''id1'') = Some ?conn"
    by (simp add: handle_avatar_connect_def getattr_get_def dict_get_def Let_def)
  have flag: "?conn (py ''speaking'') = Some (Json (JBool False))"
    by (simp add: new_connection_def)
  have fields: "dict_get ?kvs (py ''connection_id'') JNull = JStr (py ''id1'')"
    "dict_get ?kvs (py ''text'') (JStr []) = JStr [32, 32]"
    by (simp_all add: dict_get_def py_def)
  have ne: "py ''id1'' \<noteq> []"
    by (simp add: py_def)
  from speak_blank_text [OF fields(1) stored fields(2) blank] flag ne sp stored
  show ?thesis
    by simp
qed

subsection \<open>Disconnect\<close>

text \<open>
  Claim C5: for every identifier in the registry (identifiers are \<^verbatim>\<open>str(uuid.uuid4())\<close>,
  never the empty string), a disconnect request on it answers 200 \<^verbatim>\<open>disconnected\<close> and
  removes it; right after, a second disconnect on it answers 404 and a speak on it
  answers 400, whatever else those requests carry.
\<close>

theorem disconnect_is_immediate:
  assumes "k \<noteq> []"
    and "active_connections self k = Some record"
    and "dict_get kvs (py ''connection_id'') JNull = JStr k"
    and "dict_get kvs2 (py ''connection_id'') JNull = JStr k"
    and "dict_get kvs3 (py ''connection_id'') JNull = JStr k"
    and "self' = self\<lparr>active_connections := (active_connections self)(k := None)\<rparr>"
  shows "handle_avatar_disconnect self (Inr (JObj kvs)) =
           (self', \<lparr>status = 200, body = JObj [(py ''status'', JStr (py ''disconnected''))]\<rparr>)
         \<and> handle_avatar_disconnect self' (Inr (JObj kvs2)) =
           (self', \<lparr>status = 404, body = error_body (py ''Connection not found'')\<rparr>)
         \<and> handle_avatar_speak self' (Inr (JObj kvs3)) =
           (self', \<lparr>status = 400, body = error_body (py ''Invalid connection'')\<rparr>)"
proof -
  have c: "contains (active_connections self) (JStr k) = Inr True"
    using assms(2) by (rule contains_present)
  have d: "del_connection (active_connections self) (JStr k)
             = Inr ((active_connections self)(k := None))"
    using assms(2) by (simp add: del_connection_def)
  have c': "contains (active_connections self') (JStr k) = Inr False"
    using assms(6) by (simp add: contains_def)
  have first: "handle_avatar_disconnect self (Inr (JObj kvs)) =
           (self', \<lparr>status = 200, body = JObj [(py ''status'', JStr (py ''disconnected''))]\<rparr>)"
    using assms(1,3,6) c d
    by (simp add: handle_avatar_disconnect_def getattr_get_def json_response_def)
  have second: "handle_avatar_disconnect self' (Inr (JObj kvs2)) =
           (self', \<lparr>status = 404, body = error_body (py ''Connection not found'')\<rparr>)"
    using assms(1,4) c'
    by (simp add: handle_avatar_disconnect_def getattr_get_def json_response_status_def)
  have third: "handle_avatar_speak self' (Inr (JObj kvs3)) =
           (self', \<lparr>status = 400, body = error_body (py ''Invalid connection'')\<rparr>)"
    using assms(1,5) c'
    by (simp add: handle_avatar_speak_def getattr_get_def json_response_status_def)
  from first second third show ?thesis
    by simp
qed

theorem disconnect_is_immediate_witness:
  "py ''id1'' \<noteq> []
   \<and> handle_avatar_disconnect
       (fst (handle_avatar_connect (init Map.empty ()) (Inr (JObj [])) (py ''id1'') 7))
       (Inr (JObj [(py ''connection_id'', JStr (py ''id1''))]))
     = (init Map.empty (),
        \<lparr>status = 200, body = JObj [(py ''status'', JStr (py ''disconnected''))]\<rparr>)
   \<and> handle_avatar_disconnect (init Map.empty ())
       (Inr (JObj [(py ''connection_id'', JStr (py ''id1''))]))
     = (init Map.empty (),
        \<lparr>status = 404, body = error_body (py ''Connection not found'')\<rparr>)
   \<and> handle_avatar_speak (init Map.empty ())
       (Inr (JObj [(py ''connection_id'', JStr (py ''id1'')), (py ''text'', JStr (py ''hi''))]))
     = (init Map.empty (),
        \<lparr>status = 400, body = error_body (py ''Invalid connection'')\<rparr>)"
  using disconnect_is_immediate
    [of "py ''id1''"
        "fst (handle_avatar_connect (init Map.empty ()) (Inr (JObj [])) (py ''id1'') 7)"
        "new_connection (JStr (py ''lisa'')) (JStr (py ''casual-sitting''))
           (JStr (py ''#FFFFFF'')) 7"
        "[(py ''connection_id'', JStr (py ''id1''))]"
        "[(py ''connection_id'', JStr (py ''id1''))]"
        "[(py ''connection_id'', JStr (py ''id1'')), (py ''text'', JStr (py ''hi''))]"
        "init Map.empty ()"]
  by (simp add: handle_avatar_connect_def getattr_get_def dict_get_def py_def init_def
        Let_def)

text \<open>
  Claim C10, as stated: a disconnect request whose body lacks the connection identifier
  gets the 404 response. A body that parses to an array lacks every member, and the
  handler answers 500.
\<close>

theorem disconnect_array_body_is_500:
  "status (snd (handle_avatar_disconnect (init Map.empty ()) (Inr (JArr [])))) = 500"
  by (simp add: handle_avatar_disconnect_def getattr_get_def error_500_def
        json_response_status_def)

text \<open>
  Claim C10, amended: for every disconnect request whose body is a JSON object that lacks
  the \<^verbatim>\<open>connection_id\<close> member, or holds a falsy value under it (such as the empty
  string), the handler answers 404 \<^verbatim>\<open>Connection not found\<close>, not a 400, and the service
  with its registry is unchanged.
\<close>

theorem disconnect_without_id:
  assumes "py ''connection_id'' \<notin> fst ` set kvs
           \<or> \<not> truthy (dict_get kvs (py ''connection_id'') JNull)"
  shows "handle_avatar_disconnect self (Inr (JObj kvs)) =
           (self, \<lparr>status = 404, body = error_body (py ''Connection not found'')\<rparr>)"
proof -
  have "\<not> truthy (dict_get kvs (py ''connection_id'') JNull)"
    using assms by (auto simp: dict_get_absent)
  then show ?thesis
    by (simp add: handle_avatar_disconnect_def getattr_get_def json_response_status_def)
qed

theorem disconnect_without_id_witness:
  "py ''connection_id'' \<notin> fst ` set [(py ''other'', JInt 1)]
   \<and> handle_avatar_disconnect (init Map.empty ()) (Inr (JObj [(py ''other'', JInt 1)])) =
       (init Map.empty (), \<lparr>status = 404, body = error_body (py ''Connection not found'')\<rparr>)"
  using disconnect_without_id [of "[(py ''other'', JInt 1)]" "init Map.empty ()"]
  by (simp add: py_def)

subsection \<open>The speech token\<close>

text \<open>
  Claim C6: whenever \<^verbatim>\<open>get_speech_token\<close> succeeds on a service built by \<^verbatim>\<open>__init__\<close>,
  the SDK built a configuration for the configured region (with the subscription key when
  one is set and non-empty), its authorization-token property was read, and the result is
  exactly that token string, the region (\<^verbatim>\<open>westus2\<close> when \<^verbatim>\<open>SPEECH_REGION\<close> is unset)
  and \<^verbatim>\<open>expires_in\<close> 3600.
\<close>

theorem speech_token_result:
  assumes "get_speech_token sdk (init environ creds) = Inr token_info"
  shows "\<exists>speech_config auth_token.
           SpeechConfig sdk
               (case environ (py ''SPEECH_KEY'') of
                  None \<Rightarrow> None
                | Some k \<Rightarrow> if k = [] then None else Some k)
               (case environ (py ''SPEECH_REGION'') of
                  None \<Rightarrow> py ''westus2''
                | Some r \<Rightarrow> r)
             = Inr speech_config
           \<and> get_property sdk speech_config = Inr auth_token
           \<and> token_info =
               JObj [(py ''token'', JStr auth_token),
                     (py ''region'',
                      JStr (case environ (py ''SPEECH_REGION'') of
                              None \<Rightarrow> py ''westus2''
                            | Some r \<Rightarrow> r)),
                     (py ''expires_in'', JInt 3600)]"
  using assms
  by (auto simp: get_speech_token_def init_def split: option.splits sum.splits if_splits)

theorem speech_token_result_witness:
  "get_speech_token
      \<lparr>SpeechConfig = (\<lambda>k r. Inr (k, r)), get_property = (\<lambda>cfg. Inr (py ''tok''))\<rparr>
      (init Map.empty ())
     = Inr (JObj [(py ''token'', JStr (py ''tok'')),
                  (py ''region'', JStr (py ''westus2'')),
                  (py ''expires_in'', JInt 3600)])
   \<and> (\<exists>token_info.
         get_speech_token
           \<lparr>SpeechConfig = (\<lambda>k r. Inr (k, r)), get_property = (\<lambda>cfg. Inr (py ''tok''))\<rparr>
           (init Map.empty ()) = Inr token_info
         \<and> json_member token_info (py ''region'') = Some (JStr (py ''westus2'')))"
  using speech_token_result
    [of "\<lparr>SpeechConfig = (\<lambda>k r. Inr (k, r)), get_property = (\<lambda>cfg. Inr (py ''tok''))\<rparr>"
        Map.empty "()"]
  by (simp add: get_speech_token_def init_def json_member_def py_def)

subsection \<open>A successful speak\<close>

text \<open>
  The speak handler on an object body, as one case analysis on the identifier and the text.
\<close>

lemma speak_on_object:
  "handle_avatar_speak self (Inr (JObj kvs)) =
     (let connection_id = dict_get kvs (py ''connection_id'') JNull;
          text = dict_get kvs (py ''text'') (JStr []);
          voice = dict_get kvs (py ''voice'') (JStr (py ''en-US-AriaNeural''))
      in case connection_id of
           JStr k \<Rightarrow>
             (if k = [] \<or> active_connections self k = None
              then (self, \<lparr>status = 400, body = error_body (py ''Invalid connection'')\<rparr>)
              else case text of
                     JStr t \<Rightarrow>
                       if strip t = []
                       then (self, \<lparr>status = 400,
                                     body = error_body (py ''No text provided'')\<rparr>)
                       else (self\<lparr>active_connections :=
                                     (active_connections self)
                                       (k \<mapsto> (the (active_connections self k))
                                                (py ''speaking'' \<mapsto> Json (JBool True)))\<rparr>,
                             \<lparr>status = 200,
                              body = JObj [(py ''connection_id'', connection_id),
                                           (py ''text'', text),
                                           (py ''voice'', voice),
                                           (py ''status'', JStr (py ''speaking''))]\<rparr>)
                   | _ \<Rightarrow> (self, error_500 (AttributeError (type_name text) (py ''strip''))))
         | JArr xs \<Rightarrow>
             if xs = []
             then (self, \<lparr>status = 400, body = error_body (py ''Invalid connection'')\<rparr>)
             else (self, error_500 (TypeError (py ''list'')))
         | JObj ms \<Rightarrow>
             if ms = []
             then (self, \<lparr>status = 400, body = error_body (py ''Invalid connection'')\<rparr>)
             else (self, error_500 (TypeError (py ''dict'')))
         | _ \<Rightarrow> (self, \<lparr>status = 400, body = error_body (py ''Invalid connection'')\<rparr>))"
  by (auto simp: handle_avatar_speak_def getattr_get_def contains_def getattr_strip_def
        mark_speaking_def json_response_def json_response_status_def Let_def
      split: json.splits option.splits)


lemma speak_success_cases:
  assumes "status (snd (handle_avatar_speak self request)) = 200"
  obtains kvs k conn t where
    "request = Inr (JObj kvs)"
    "dict_get kvs (py ''connection_id'') JNull = JStr k"
    "k \<noteq> []"
    "active_connections self k = Some conn"
    "dict_get kvs (py ''text'') (JStr []) = JStr t"
    "strip t \<noteq> []"
proof -
  obtain data where d: "request = Inr data"
    using assms
    by (cases request)
      (simp_all add: handle_avatar_speak_def error_500_def json_response_status_def)
  obtain kvs where k: "data = JObj kvs"
    using assms d
    by (cases data)
      (simp_all add: handle_avatar_speak_def getattr_get_def error_500_def
         json_response_status_def)
  from assms d k show thesis
    by (auto simp: speak_on_object Let_def error_500_def json_response_status_def
        split: json.splits if_splits intro: that)
qed

text \<open>
  Claim C7: a speak request answered 200 has an identifier that is a key of the registry
  and a text with a non-whitespace character, and all it changes in the service is that
  connection's \<^verbatim>\<open>speaking\<close> entry, now true: its character, style, background
  and creation time are as before, and so is every other connection.
\<close>

theorem speak_success_frame:
  assumes "status (snd (handle_avatar_speak self request)) = 200"
  shows "\<exists>kvs k conn t.
           request = Inr (JObj kvs)
           \<and> dict_get kvs (py ''connection_id'') JNull = JStr k
           \<and> active_connections self k = Some conn
           \<and> dict_get kvs (py ''text'') (JStr []) = JStr t
           \<and> (\<exists>c\<in>set t. \<not> py_isspace c)
           \<and> fst (handle_avatar_speak self request) =
               self\<lparr>active_connections :=
                      (active_connections self)
                        (k \<mapsto> conn(py ''speaking'' \<mapsto> Json (JBool True)))\<rparr>
           \<and> (conn(py ''speaking'' \<mapsto> Json (JBool True))) (py ''character'')
               = conn (py ''character'')
           \<and> (conn(py ''speaking'' \<mapsto> Json (JBool True))) (py ''style'')
               = conn (py ''style'')
           \<and> (conn(py ''speaking'' \<mapsto> Json (JBool True))) (py ''background'')
               = conn (py ''background'')
           \<and> (conn(py ''speaking'' \<mapsto> Json (JBool True))) (py ''created_at'')
               = conn (py ''created_at'')
           \<and> (\<forall>k'. k' \<noteq> k \<longrightarrow>
                 active_connections (fst (handle_avatar_speak self request)) k'
                   = active_connections self k')"
proof -
  from assms obtain kvs k conn t where
    r: "request = Inr (JObj kvs)"
    and c: "dict_get kvs (py ''connection_id'') JNull = JStr k"
    and ne: "k \<noteq> []"
    and a: "active_connections self k = Some conn"
    and t: "dict_get kvs (py ''text'') (JStr []) = JStr t"
    and s: "strip t \<noteq> []"
    by (rule speak_success_cases)
  from s have w: "\<exists>c\<in>set t. \<not> py_isspace c"
    by (simp add: strip_Nil_iff)
  have f: "fst (handle_avatar_speak self request) =
             self\<lparr>active_connections :=
                    (active_connections self)
                      (k \<mapsto> conn(py ''speaking'' \<mapsto> Json (JBool True)))\<rparr>"
    using r c ne a t s by (simp add: speak_on_object)
  have fields: "py ''speaking'' \<noteq> py ''character''" "py ''speaking'' \<noteq> py ''style''"
    "py ''speaking'' \<noteq> py ''background''" "py ''speaking'' \<noteq> py ''created_at''"
    by (simp_all add: py_def)
  have others: "\<forall>k'. k' \<noteq> k \<longrightarrow>
      active_connections (fst (handle_avatar_speak self request)) k'
        = active_connections self k'"
    by (simp add: f)
  from r c a t w f fields others show ?thesis
    by (intro exI [of _ kvs] exI [of _ k] exI [of _ conn] exI [of _ t]) simp
qed

theorem speak_success_frame_witness:
  "status (snd (handle_avatar_speak
       ((init Map.empty ())
          \<lparr>active_connections :=
             [py ''id1'' \<mapsto> new_connection (JStr (py ''lisa'')) (JStr (py ''casual-sitting''))
                               (JStr (py ''#FFFFFF'')) 7]\<rparr>)
       (Inr (JObj [(py ''connection_id'', JStr (py ''id1'')),
                   (py ''text'', JStr (py ''hi''))])))) = 200
   \<and> active_connections (fst (handle_avatar_speak
       ((init Map.empty ())
          \<lparr>active_connections :=
             [py ''id1'' \<mapsto> new_connection (JStr (py ''lisa'')) (JStr (py ''casual-sitting''))
                               (JStr (py ''#FFFFFF'')) 7]\<rparr>)
       (Inr (JObj [(py ''connection_id'', JStr (py ''id1'')),
                   (py ''text'', JStr (py ''hi''))]))))
     = [py ''id1'' \<mapsto>
          (new_connection (JStr (py ''lisa'')) (JStr (py ''casual-sitting''))
             (JStr (py ''#FFFFFF'')) 7)
          (py ''speaking'' \<mapsto> Json (JBool True))]"
proof -
  let ?conn = "new_connection (JStr (py ''lisa'')) (JStr (py ''casual-sitting''))
                 (JStr (py ''#FFFFFF'')) 7"
  let ?self = "(init Map.empty ())\<lparr>active_connections := [py ''id1'' \<mapsto> ?conn]\<rparr>"
  let ?kvs = "[(py ''connection_id'', JStr (py ''id1'')), (py ''text'', JStr (py ''hi''))]"
  have cid: "dict_get ?kvs (py ''connection_id'') JNull = JStr (py ''id1'')"
    by (simp add: dict_get_def py_def)
  have tx: "dict_get ?kvs (py ''text'') (JStr []) = JStr (py ''hi'')"
    by (simp add: dict_get_def py_def)
  have ne: "py ''id1'' \<noteq> []" "strip (py ''hi'') \<noteq> []"
    by (simp_all add: py_def strip_def py_isspace_def)
  have ok: "status (snd (handle_avatar_speak ?self (Inr (JObj ?kvs)))) = 200"
    by (simp add: speak_on_object cid tx ne Let_def)
  from speak_success_frame [OF ok] obtain kvs k conn where
    "Inr (JObj ?kvs) = (Inr (JObj kvs) :: request)"
    "dict_get kvs (py ''connection_id'') JNull = JStr k"
    "active_connections ?self k = Some conn"
    "fst (handle_avatar_speak ?self (Inr (JObj ?kvs))) =
       ?self\<lparr>active_connections :=
               (active_connections ?self)(k \<mapsto> conn(py ''speaking'' \<mapsto> Json (JBool True)))\<rparr>"
    by blast
  moreover from this cid have "k = py ''id1''"
    by simp
  ultimately have "active_connections (fst (handle_avatar_speak ?self (Inr (JObj ?kvs))))
      = [py ''id1'' \<mapsto> ?conn(py ''speaking'' \<mapsto> Json (JBool True))]"
    by simp
  with ok show ?thesis
    by simp
qed

text \<open>
  Claim C9: in the response of a speak request answered 200, \<^verbatim>\<open>voice\<close> is
  \<^verbatim>\<open>en-US-AriaNeural\<close> when the request has no \<^verbatim>\<open>voice\<close> member, and the request's
  value, unchanged, when it has one.
\<close>

theorem speak_voice_default_or_echo:
  assumes "status (snd (handle_avatar_speak self request)) = 200"
  shows "\<exists>data. request = Inr data
           \<and> json_member (body (snd (handle_avatar_speak self request))) (py ''voice'')
               = Some (case json_member data (py ''voice'') of
                         None \<Rightarrow> JStr (py ''en-US-AriaNeural'')
                       | Some voice \<Rightarrow> voice)"
proof -
  from assms obtain kvs k conn t where
    r: "request = Inr (JObj kvs)"
    and c: "dict_get kvs (py ''connection_id'') JNull = JStr k"
    and ne: "k \<noteq> []"
    and a: "active_connections self k = Some conn"
    and t: "dict_get kvs (py ''text'') (JStr []) = JStr t"
    and s: "strip t \<noteq> []"
    by (rule speak_success_cases)
  have "body (snd (handle_avatar_speak self request)) =
          JObj [(py ''connection_id'', JStr k),
                (py ''text'', JStr t),
                (py ''voice'', dict_get kvs (py ''voice'') (JStr (py ''en-US-AriaNeural''))),
                (py ''status'', JStr (py ''speaking''))]"
    using r c ne a t s by (simp add: speak_on_object)
  moreover have "py ''voice'' \<noteq> py ''status''"
    by (simp add: py_def)
  ultimately show ?thesis
    using r by (simp add: json_member_def dict_get_def)
qed

theorem speak_voice_default_or_echo_witness:
  "json_member
     (body (snd (handle_avatar_speak
        ((init Map.empty ())
           \<lparr>active_connections :=
              [py ''id1'' \<mapsto> new_connection (JStr (py ''lisa''))
                                (JStr (py ''casual-sitting'')) (JStr (py ''#FFFFFF'')) 7]\<rparr>)
        (Inr (JObj [(py ''connection_id'', JStr (py ''id1'')),
                    (py ''text'', JStr (py ''hi''))])))))
     (py ''voice'') = Some (JStr (py ''en-US-AriaNeural''))
   \<and> json_member
     (body (snd (handle_avatar_speak
        ((init Map.empty ())
           \<lparr>active_connections :=
              [py ''id1'' \<mapsto> new_connection (JStr (py ''lisa''))
                                (JStr (py ''casual-sitting'')) (JStr (py ''#FFFFFF'')) 7]\<rparr>)
        (Inr (JObj [(py ''connection_id'', JStr (py ''id1'')),
                    (py ''text'', JStr (py ''hi'')),
                    (py ''voice'', JStr (py ''en-GB-RyanNeural''))])))))
     (py ''voice'') = Some (JStr (py ''en-GB-RyanNeural''))"
proof -
  let ?self = "(init Map.empty ())
           \<lparr>active_connections :=
              [py ''id1'' \<mapsto> new_connection (JStr (py ''lisa''))
                                (JStr (py ''casual-sitting'')) (JStr (py ''#FFFFFF'')) 7]\<rparr>"
  let ?kvs = "[(py ''connection_id'', JStr (py ''id1'')), (py ''text'', JStr (py ''hi''))]"
  let ?kvs' = "[(py ''connection_id'', JStr (py ''id1'')), (py ''text'', JStr (py ''hi'')),
                (py ''voice'', JStr (py ''en-GB-RyanNeural''))]"
  have ne: "py ''id1'' \<noteq> []" "strip (py ''hi'') \<noteq> []"
    by (simp_all add: py_def strip_def py_isspace_def)
  have fields:
    "dict_get ?kvs (py ''connection_id'') JNull = JStr (py ''id1'')"
    "dict_get ?kvs (py ''text'') (JStr []) = JStr (py ''hi'')"
    "dict_get ?kvs' (py ''connection_id'') JNull = JStr (py ''id1'')"
    "dict_get ?kvs' (py ''text'') (JStr []) = JStr (py ''hi'')"
    by (simp_all add: dict_get_def py_def)
  have ok: "status (snd (handle_avatar_speak ?self (Inr (JObj ?kvs)))) = 200"
    by (simp add: speak_on_object fields ne Let_def)
  have ok': "status (snd (handle_avatar_speak ?self (Inr (JObj ?kvs')))) = 200"
    by (simp add: speak_on_object fields ne Let_def)
  have absent: "json_member (JObj ?kvs) (py ''voice'') = None"
    by (simp add: json_member_def py_def)
  have given: "json_member (JObj ?kvs') (py ''voice'') = Some (JStr (py ''en-GB-RyanNeural''))"
    by (simp add: json_member_def py_def)
  from speak_voice_default_or_echo [OF ok] absent
  have first: "json_member (body (snd (handle_avatar_speak ?self (Inr (JObj ?kvs)))))
      (py ''voice'') = Some (JStr (py ''en-US-AriaNeural''))"
    by auto
  from speak_voice_default_or_echo [OF ok'] given
  have second: "json_member (body (snd (handle_avatar_speak ?self (Inr (JObj ?kvs')))))
      (py ''voice'') = Some (JStr (py ''en-GB-RyanNeural''))"
    by auto
  from first second show ?thesis
    by (rule conjI)
qed

subsection \<open>The registry over a run\<close>

lemma run_snoc: "run self (cs @ [c]) = fst (step (run self cs) c)"
  by (induction cs arbitrary: self) simp_all

lemma connect_dom:
  "dom (active_connections (fst (handle_avatar_connect self request u t))) =
     (if generates self (Connect request u t) u
      then insert u (dom (active_connections self))
      else dom (active_connections self))"
  by (auto simp: generates_def handle_avatar_connect_def getattr_get_def json_response_def
        error_500_def json_response_status_def json_member_def py_def Let_def
      split: sum.splits json.splits)

lemma generates_id: "generates self (Connect request u t) k \<Longrightarrow> k = u"
  by (auto simp: generates_def handle_avatar_connect_def getattr_get_def json_response_def
        error_500_def json_response_status_def json_member_def py_def Let_def
      split: sum.splits json.splits)


lemma generates_iff:
  "generates self (Connect request u t) k \<longleftrightarrow> k = u \<and> generates self (Connect request u t) u"
  using generates_id [of self request u t k] by auto

lemma speak_dom:
  "dom (active_connections (fst (handle_avatar_speak self request))) =
     dom (active_connections self)"
proof (cases "status (snd (handle_avatar_speak self request)) = 200")
  case True
  then obtain kvs k conn t where
    "request = Inr (JObj kvs)"
    "dict_get kvs (py ''connection_id'') JNull = JStr k"
    "k \<noteq> []"
    "active_connections self k = Some conn"
    "dict_get kvs (py ''text'') (JStr []) = JStr t"
    "strip t \<noteq> []"
    by (rule speak_success_cases)
  then show ?thesis
    by (auto simp: speak_on_object)
next
  case False
  then have "fst (handle_avatar_speak self request) = self"
    by (auto simp: handle_avatar_speak_def json_response_def Let_def
        split: sum.splits if_splits)
  then show ?thesis
    by simp
qed

lemma disconnect_on_object:
  "handle_avatar_disconnect self (Inr (JObj kvs)) =
     (let connection_id = dict_get kvs (py ''connection_id'') JNull
      in case connection_id of
           JStr k \<Rightarrow>
             if k = [] \<or> active_connections self k = None
             then (self, \<lparr>status = 404, body = error_body (py ''Connection not found'')\<rparr>)
             else (self\<lparr>active_connections := (active_connections self)(k := None)\<rparr>,
                   \<lparr>status = 200,
                    body = JObj [(py ''status'', JStr (py ''disconnected''))]\<rparr>)
         | JArr xs \<Rightarrow>
             if xs = []
             then (self, \<lparr>status = 404, body = error_body (py ''Connection not found'')\<rparr>)
             else (self, error_500 (TypeError (py ''list'')))
         | JObj ms \<Rightarrow>
             if ms = []
             then (self, \<lparr>status = 404, body = error_body (py ''Connection not found'')\<rparr>)
             else (self, error_500 (TypeError (py ''dict'')))
         | _ \<Rightarrow> (self, \<lparr>status = 404, body = error_body (py ''Connection not found'')\<rparr>))"
  by (auto simp: handle_avatar_disconnect_def getattr_get_def contains_def
        del_connection_def json_response_def json_response_status_def Let_def
      split: json.splits option.splits)

lemma disconnect_dom:
  "k \<in> dom (active_connections (fst (handle_avatar_disconnect self request))) \<longleftrightarrow>
     k \<in> dom (active_connections self) \<and> \<not> removes self (Disconnect request) k"
proof (cases request)
  case (Inl e)
  then show ?thesis
    by (simp add: handle_avatar_disconnect_def removes_def error_500_def
          json_response_status_def)
next
  case (Inr data)
  show ?thesis
  proof (cases data)
    case (JObj kvs)
    have "requested_id request = dict_get kvs (py ''connection_id'') JNull"
      using Inr JObj by (simp add: requested_id_def dict_get_member)
    then show ?thesis
      using Inr JObj
      by (auto simp: removes_def disconnect_on_object Let_def error_500_def
            json_response_status_def
          split: json.splits if_splits)
  qed (use Inr in \<open>simp_all add: handle_avatar_disconnect_def removes_def getattr_get_def
         error_500_def json_response_status_def\<close>)
qed

lemma step_dom:
  "k \<in> dom (active_connections (fst (step self c))) \<longleftrightarrow>
     generates self c k \<or> (k \<in> dom (active_connections self) \<and> \<not> removes self c k)"
proof (cases c)
  case (Connect request u t)
  have "k \<in> dom (active_connections (fst (handle_avatar_connect self request u t))) \<longleftrightarrow>
          generates self (Connect request u t) k \<or> k \<in> dom (active_connections self)"
    using generates_iff [of self request u t k]
    by (auto simp: connect_dom [of self request u t] simp del: dom_eq_empty_conv)
  then show ?thesis
    using Connect by (simp add: removes_def)
next
  case (Speak request)
  then show ?thesis
    by (simp add: speak_dom generates_def removes_def)
next
  case (Disconnect request)
  then show ?thesis
    by (simp add: disconnect_dom generates_def)
qed


lemma generated_at_snoc:
  "i < length cs \<Longrightarrow> generated_at self (cs @ [c]) i k = generated_at self cs i k"
  "generated_at self (cs @ [c]) (length cs) k = generates (run self cs) c k"
  by (simp_all add: generated_at_def nth_append)

lemma removed_at_snoc:
  "i < length cs \<Longrightarrow> removed_at self (cs @ [c]) i k = removed_at self cs i k"
  "removed_at self (cs @ [c]) (length cs) k = removes (run self cs) c k"
  by (simp_all add: removed_at_def nth_append)

lemma live_snoc:
  "live self (cs @ [c]) k \<longleftrightarrow>
     generates (run self cs) c k \<or> (live self cs k \<and> \<not> removes (run self cs) c k)"
proof
  assume "live self (cs @ [c]) k"
  then obtain i where i: "i < Suc (length cs)" "generated_at self (cs @ [c]) i k"
    and later: "\<forall>j. i < j \<and> j < Suc (length cs) \<longrightarrow> \<not> removed_at self (cs @ [c]) j k"
    by (auto simp: live_def)
  show "generates (run self cs) c k \<or> (live self cs k \<and> \<not> removes (run self cs) c k)"
  proof (cases "i = length cs")
    case True
    with i(2) show ?thesis
      by (simp add: generated_at_snoc)
  next
    case False
    with i(1) have lt: "i < length cs"
      by simp
    with i(2) have g: "generated_at self cs i k"
      by (simp add: generated_at_snoc)
    have "\<not> removed_at self cs j k" if "i < j" "j < length cs" for j
    proof -
      from later that have "\<not> removed_at self (cs @ [c]) j k"
        by simp
      with that show ?thesis
        by (simp add: removed_at_snoc)
    qed
    with lt g have "live self cs k"
      by (auto simp: live_def)
    moreover from later lt have "\<not> removed_at self (cs @ [c]) (length cs) k"
      by simp
    then have "\<not> removes (run self cs) c k"
      by (simp add: removed_at_snoc)
    ultimately show ?thesis
      by simp
  qed
next
  assume "generates (run self cs) c k \<or> (live self cs k \<and> \<not> removes (run self cs) c k)"
  then show "live self (cs @ [c]) k"
  proof
    assume "generates (run self cs) c k"
    then have "generated_at self (cs @ [c]) (length cs) k"
      by (simp add: generated_at_snoc)
    then show ?thesis
      unfolding live_def by (intro exI [of _ "length cs"]) auto
  next
    assume a: "live self cs k \<and> \<not> removes (run self cs) c k"
    then obtain i where i: "i < length cs" "generated_at self cs i k"
      and later: "\<forall>j. i < j \<and> j < length cs \<longrightarrow> \<not> removed_at self cs j k"
      by (auto simp: live_def)
    have "\<not> removed_at self (cs @ [c]) j k" if "i < j" "j < Suc (length cs)" for j
    proof (cases "j = length cs")
      case True
      with a show ?thesis
        by (simp add: removed_at_snoc)
    next
      case False
      with that have "j < length cs"
        by simp
      with later that show ?thesis
        by (simp add: removed_at_snoc)
    qed
    with i show ?thesis
      unfolding live_def by (intro exI [of _ i]) (auto simp: generated_at_snoc)
  qed
qed

lemma dom_run_live:
  assumes "active_connections self = Map.empty"
  shows "k \<in> dom (active_connections (run self cs)) \<longleftrightarrow> live self cs k"
proof (induction cs rule: rev_induct)
  case Nil
  with assms show ?case
    by (simp add: live_def)
next
  case (snoc c cs)
  then show ?case
    by (simp add: run_snoc step_dom live_snoc)
qed

lemma dom_new_connection: "dom (new_connection c s b t) = session_fields"
  by (auto simp: new_connection_def session_fields_def)

lemma connect_well_formed:
  assumes "well_formed (active_connections self)"
  shows "well_formed (active_connections (fst (handle_avatar_connect self request u t)))"
  using assms
  by (auto simp: well_formed_def handle_avatar_connect_def getattr_get_def Let_def
        dom_new_connection
      split: sum.splits json.splits if_splits)

lemma speak_well_formed:
  assumes "well_formed (active_connections self)"
  shows "well_formed (active_connections (fst (handle_avatar_speak self request)))"
proof (cases "status (snd (handle_avatar_speak self request)) = 200")
  case True
  then obtain kvs k conn t where
    "request = Inr (JObj kvs)"
    "dict_get kvs (py ''connection_id'') JNull = JStr k"
    "k \<noteq> []"
    "active_connections self k = Some conn"
    "dict_get kvs (py ''text'') (JStr []) = JStr t"
    "strip t \<noteq> []"
    by (rule speak_success_cases)
  moreover from this assms have "dom conn = session_fields"
    by (simp add: well_formed_def)
  then have "insert (py ''speaking'') (dom conn) = session_fields"
    by (auto simp: session_fields_def)
  ultimately show ?thesis
    using assms by (auto simp: speak_on_object well_formed_def)
next
  case False
  then have "fst (handle_avatar_speak self request) = self"
    by (auto simp: handle_avatar_speak_def json_response_def Let_def
        split: sum.splits if_splits)
  with assms show ?thesis
    by simp
qed

lemma disconnect_well_formed:
  assumes "well_formed (active_connections self)"
  shows "well_formed (active_connections (fst (handle_avatar_disconnect self request)))"
  using assms
  by (auto simp: well_formed_def handle_avatar_disconnect_def del_connection_def Let_def
      split: sum.splits json.splits if_splits option.splits)

lemma step_well_formed:
  "well_formed (active_connections self) \<Longrightarrow>
     well_formed (active_connections (fst (step self c)))"
  by (cases c) (simp_all add: connect_well_formed speak_well_formed disconnect_well_formed)

lemma run_well_formed:
  "well_formed (active_connections self) \<Longrightarrow> well_formed (active_connections (run self cs))"
  by (induction cs arbitrary: self) (simp_all add: step_well_formed)

text \<open>
  Claim C8: start from the service as \<^verbatim>\<open>__init__\<close> builds it (empty registry) and run any
  sequence of connect, speak and disconnect calls. An identifier is a key of the registry
  if and only if some connect of the run generated it and no later disconnect of the run
  removed it; and every stored connection has exactly the keys \<^verbatim>\<open>character\<close>,
  \<^verbatim>\<open>style\<close>, \<^verbatim>\<open>background\<close>, \<^verbatim>\<open>created_at\<close> and \<^verbatim>\<open>speaking\<close>.
\<close>

theorem registry_membership_invariant:
  "(k \<in> dom (active_connections (run (init environ creds) cs)) \<longleftrightarrow>
      (\<exists>i<length cs.
         generates (run (init environ creds) (take i cs)) (cs ! i) k
         \<and> (\<forall>j. i < j \<and> j < length cs \<longrightarrow>
                \<not> removes (run (init environ creds) (take j cs)) (cs ! j) k)))
   \<and> (\<forall>conn. active_connections (run (init environ creds) cs) k = Some conn \<longrightarrow>
         dom conn = session_fields)"
proof
  have "active_connections (init environ creds) = Map.empty"
    by (simp add: init_def)
  then have "k \<in> dom (active_connections (run (init environ creds) cs)) \<longleftrightarrow>
      live (init environ creds) cs k"
    by (rule dom_run_live)
  then show "k \<in> dom (active_connections (run (init environ creds) cs)) \<longleftrightarrow>
      (\<exists>i<length cs.
         generates (run (init environ creds) (take i cs)) (cs ! i) k
         \<and> (\<forall>j. i < j \<and> j < length cs \<longrightarrow>
                \<not> removes (run (init environ creds) (take j cs)) (cs ! j) k))"
    by (simp add: live_def generated_at_def removed_at_def)
next
  have "well_formed (active_connections (init environ creds))"
    by (simp add: init_def well_formed_def)
  then have "well_formed (active_connections (run (init environ creds) cs))"
    by (rule run_well_formed)
  then show "\<forall>conn. active_connections (run (init environ creds) cs) k = Some conn \<longrightarrow>
         dom conn = session_fields"
    by (simp add: well_formed_def)
qed

theorem registry_membership_invariant_witness:
  "py ''b'' \<in> dom (active_connections (run (init Map.empty ())
       [Connect (Inr (JObj [])) (py ''a'') 7,
        Disconnect (Inr (JObj [(py ''connection_id'', JStr (py ''a''))])),
        Connect (Inr (JObj [])) (py ''b'') 9]))
   \<and> py ''a'' \<notin> dom (active_connections (run (init Map.empty ())
       [Connect (Inr (JObj [])) (py ''a'') 7,
        Disconnect (Inr (JObj [(py ''connection_id'', JStr (py ''a''))])),
        Connect (Inr (JObj [])) (py ''b'') 9]))
   \<and> generates (run (init Map.empty ())
         (take 2 [Connect (Inr (JObj [])) (py ''a'') 7,
                  Disconnect (Inr (JObj [(py ''connection_id'', JStr (py ''a''))])),
                  Connect (Inr (JObj [])) (py ''b'') 9]))
         (Connect (Inr (JObj [])) (py ''b'') 9) (py ''b'')
   \<and> (\<exists>conn. active_connections (run (init Map.empty ())
          [Connect (Inr (JObj [])) (py ''a'') 7,
           Disconnect (Inr (JObj [(py ''connection_id'', JStr (py ''a''))])),
           Connect (Inr (JObj [])) (py ''b'') 9]) (py ''b'') = Some conn
        \<and> dom conn = session_fields)"
proof -
  let ?cs = "[Connect (Inr (JObj [])) (py ''a'') 7,
              Disconnect (Inr (JObj [(py ''connection_id'', JStr (py ''a''))])),
              Connect (Inr (JObj [])) (py ''b'') 9]"
  let ?s = "init Map.empty ()"
  have g: "generates (run ?s (take 2 ?cs)) (?cs ! 2) (py ''b'')"
    by (simp add: generates_def handle_avatar_connect_def getattr_get_def json_response_def
          json_member_def py_def Let_def)
  have "\<exists>i<length ?cs. generates (run ?s (take i ?cs)) (?cs ! i) (py ''b'')
          \<and> (\<forall>j. i < j \<and> j < length ?cs \<longrightarrow>
                 \<not> removes (run ?s (take j ?cs)) (?cs ! j) (py ''b''))"
    using g by (intro exI [of _ 2]) auto
  with registry_membership_invariant [of "py ''b''" Map.empty "()" ?cs]
  have b: "py ''b'' \<in> dom (active_connections (run ?s ?cs))"
    and wf: "\<forall>conn. active_connections (run ?s ?cs) (py ''b'') = Some conn \<longrightarrow>
               dom conn = session_fields"
    by blast+
  from b wf have ex: "\<exists>conn. active_connections (run ?s ?cs) (py ''b'') = Some conn
        \<and> dom conn = session_fields"
    by auto
  have a: "py ''a'' \<notin> dom (active_connections (run ?s ?cs))"
    by (simp add: handle_avatar_connect_def handle_avatar_disconnect_def getattr_get_def
          dict_get_def contains_def del_connection_def init_def py_def Let_def)
  from g have g': "generates (run ?s (take 2 ?cs)) (Connect (Inr (JObj [])) (py ''b'') 9)
      (py ''b'')"
    by simp
  from b a g' ex show ?thesis
    by blast
qed

end
